theory Spec2Isabelle
  imports Main
begin

section \<open>Device detection from request headers (mobile.go)\<close>

text \<open>
  A shallow embedding of \<^verbatim>\<open>resolveDevice\<close> of package \<^verbatim>\<open>mobile\<close>. Go strings are byte
  sequences, so a header value is a \<^typ>\<open>string\<close> (a list of 8-bit characters), and
  \<^verbatim>\<open>len\<close> and slicing count bytes.
\<close>

subsection \<open>The standard-library operations the function calls\<close>

text \<open>
  \<^verbatim>\<open>strings.HasPrefix(s, prefix)\<close> and \<^verbatim>\<open>strings.Contains(s, substr)\<close>: byte-wise and
  case-sensitive. The empty string is contained in every string.
\<close>

fun HasPrefix :: "string \<Rightarrow> string \<Rightarrow> bool" where
  "HasPrefix s [] = True"
| "HasPrefix [] (p # ps) = False"
| "HasPrefix (c # cs) (p # ps) = (c = p \<and> HasPrefix cs ps)"

fun Contains :: "string \<Rightarrow> string \<Rightarrow> bool" where
  "Contains [] substr = HasPrefix [] substr"
| "Contains (c # cs) substr = (HasPrefix (c # cs) substr \<or> Contains cs substr)"

text \<open>
  \<^verbatim>\<open>strings.ToLower(s)\<close>. The library scans the bytes of \<open>s\<close>: when every byte is below
  \<^verbatim>\<open>utf8.RuneSelf\<close> (0x80) it adds \<^verbatim>\<open>'a' - 'A'\<close> to each byte in \<^verbatim>\<open>'A'..'Z'\<close> and keeps the
  others. A string with a byte from 0x80 on goes through \<^verbatim>\<open>strings.Map(unicode.ToLower, s)\<close>,
  which reads the Unicode case tables of the Go distribution; that path is the parameter
  \<open>unicodeLower\<close> here, and every theorem below holds for any value of it.
\<close>

fun isASCII :: "string \<Rightarrow> bool" where
  "isASCII [] = True"
| "isASCII (c # cs) = (if (of_char c :: nat) \<ge> 128 then False else isASCII cs)"

definition lowerByte :: "char \<Rightarrow> char" where
  "lowerByte c =
     (if (65::nat) \<le> of_char c \<and> of_char c \<le> (90::nat)
      then char_of (of_char c + (32::nat)) else c)"

definition ToLower :: "(string \<Rightarrow> string) \<Rightarrow> string \<Rightarrow> string" where
  "ToLower unicodeLower s = (if isASCII s then map lowerByte s else unicodeLower s)"

text \<open>
  \<^verbatim>\<open>http.Header\<close> is \<^verbatim>\<open>map[string][]string\<close>; \<^verbatim>\<open>Get\<close> returns the first value stored under
  the canonical form of the key, and the empty string when there is none. The four keys
  the function reads are written in canonical form already.
\<close>

type_synonym Header = "string \<rightharpoonup> string list"

definition Header_Get :: "Header \<Rightarrow> string \<Rightarrow> string" where
  "Header_Get h key = (case h key of None \<Rightarrow> [] | Some [] \<Rightarrow> [] | Some (v # _) \<Rightarrow> v)"

text \<open>
  A slice expression \<^verbatim>\<open>s[:n]\<close> panics at run time when \<open>n\<close> exceeds \<^verbatim>\<open>len(s)\<close>.
\<close>

datatype panic = SliceBoundsOutOfRange

definition slice_to :: "string \<Rightarrow> nat \<Rightarrow> panic + string" where
  "slice_to s n = (if n \<le> length s then Inr (take n s) else Inl SliceBoundsOutOfRange)"

subsection \<open>Constants and tables\<close>

definition Android :: string where "Android = ''android''"
definition Mobile :: string where "Mobile = ''mobile''"
definition Ipad :: string where "Ipad = ''ipad''"
definition Iphone :: string where "Iphone = ''iphone''"
definition Ipod :: string where "Ipod = ''ipod''"
definition Ios :: string where "Ios = ''ios''"
definition Kindle :: string where "Kindle = ''Kindle''"
definition Silk :: string where "Silk = ''Silk''"
definition Unknown :: string where "Unknown = ''Unknown''"
definition Wap :: string where "Wap = ''wap''"
definition XwapProfile :: string where "XwapProfile = ''X-Wap-Profile''"
definition Profile :: string where "Profile = ''Profile''"

definition MobileUserAgentPrefixes :: "string list" where
  "MobileUserAgentPrefixes =
    [''w3c '', ''w3c-'', ''acs-'', ''alav'', ''alca'', ''amoi'', ''audi'', ''avan'', ''benq'',
     ''bird'', ''blac'', ''blaz'', ''brew'', ''cell'', ''cldc'', ''cmd-'', ''dang'', ''doco'',
     ''eric'', ''hipt'', ''htc_'', ''inno'', ''ipaq'', ''ipod'', ''jigs'', ''kddi'', ''keji'',
     ''leno'', ''lg-c'', ''lg-d'', ''lg-g'', ''lge-'', ''lg/u'', ''maui'', ''maxo'', ''midp'',
     ''mits'', ''mmef'', ''mobi'', ''mot-'', ''moto'', ''mwbp'', ''nec-'', ''newt'', ''noki'',
     ''palm'', ''pana'', ''pant'', ''phil'', ''play'', ''port'', ''prox'', ''qwap'', ''sage'',
     ''sams'', ''sany'', ''sch-'', ''sec-'', ''send'', ''seri'', ''sgh-'', ''shar'', ''sie-'',
     ''siem'', ''smal'', ''smar'', ''sony'', ''sph-'', ''symb'', ''t-mo'', ''teli'', ''tim-'',
     ''tosh'', ''tsm-'', ''upg1'', ''upsi'', ''vk-v'', ''voda'', ''wap-'', ''wapa'', ''wapi'',
     ''wapp'', ''wapr'', ''webc'', ''winw'', ''winw'', ''xda '', ''xda-'']"

definition MobileUserAgentKeywords :: "string list" where
  "MobileUserAgentKeywords =
    [''blackberry'', ''webos'', ''ipod'', ''lge vx'', ''midp'', ''maemo'', ''mmp'', ''mobile'',
     ''netfront'', ''hiptop'', ''nintendo DS'', ''novarra'', ''openweb'', ''opera mobi'',
     ''opera mini'', ''palm'', ''psp'', ''phone'', ''smartphone'', ''symbian'', ''up.browser'',
     ''up.link'', ''wap'', ''windows ce'']"

definition TabletUserAgentKeywords :: "string list" where
  "TabletUserAgentKeywords = [''ipad'', ''playbook'', ''hp-tablet'', ''kindle'']"

subsection \<open>The device\<close>

record device =
  normal :: bool
  mobile :: bool
  tablet :: bool
  platform :: string

text \<open>
  The three composite literals of the source; a field a literal leaves out has Go's zero
  value \<open>False\<close>.
\<close>

definition tabletDevice :: "string \<Rightarrow> device" where
  "tabletDevice p = \<lparr>normal = False, mobile = False, tablet = True, platform = p\<rparr>"

definition mobileDevice :: "string \<Rightarrow> device" where
  "mobileDevice p = \<lparr>normal = False, mobile = True, tablet = False, platform = p\<rparr>"

definition normalDevice :: "string \<Rightarrow> device" where
  "normalDevice p = \<lparr>normal = True, mobile = False, tablet = False, platform = p\<rparr>"

subsection \<open>resolveDevice\<close>

text \<open>
  The three \<^verbatim>\<open>for _, k := range table { if strings.Contains(s, k) { return ... } }\<close> loops
  have one shape: \<open>rangeContains s table\<close> is true when the loop reaches its \<^verbatim>\<open>return\<close>.
\<close>

fun rangeContains :: "string \<Rightarrow> string list \<Rightarrow> bool" where
  "rangeContains s [] = False"
| "rangeContains s (k # ks) = (if Contains s k then True else rangeContains s ks)"

text \<open>
  Each block of the function is a definition that gives \<open>Some d\<close> when the block returns
  the device \<open>d\<close> and \<open>None\<close> when control falls through to the next block.
\<close>

definition checkTablet :: "string \<Rightarrow> device option" where
  "checkTablet agent =
     (if agent \<noteq> [] then
        (if Contains agent Android \<and> \<not> Contains agent Mobile then Some (tabletDevice Android)
         else if Contains agent Ipad then Some (tabletDevice Ipad)
         else if Contains agent Silk \<and> \<not> Contains agent Mobile then Some (tabletDevice Kindle)
         else if rangeContains agent TabletUserAgentKeywords then Some (tabletDevice Unknown)
         else None)
      else None)"

definition checkProfile :: "Header \<Rightarrow> string \<Rightarrow> device option" where
  "checkProfile header agent =
     (let xWapProfile = Header_Get header XwapProfile;
          profile = Header_Get header Profile
      in if xWapProfile \<noteq> [] \<or> profile \<noteq> [] then
           (if agent \<noteq> [] then
              (if Contains agent Android then Some (mobileDevice Android)
               else if Contains agent Iphone \<or> Contains agent Ipod \<or> Contains agent Ipad
                 then Some (mobileDevice Ios)
               else Some (mobileDevice Unknown))
            else None)
         else None)"

definition checkPrefix :: "string \<Rightarrow> panic + device option" where
  "checkPrefix agent =
     (if agent \<noteq> [] \<and> length agent \<ge> 4 then
        (case slice_to agent 4 of
           Inl e \<Rightarrow> Inl e
         | Inr prefix \<Rightarrow>
             if rangeContains prefix MobileUserAgentPrefixes
             then Inr (Some (mobileDevice Unknown)) else Inr None)
      else Inr None)"

definition checkAccept :: "Header \<Rightarrow> device option" where
  "checkAccept header =
     (let accept = Header_Get header ''Accept''
      in if accept \<noteq> [] \<and> Contains accept Wap then Some (mobileDevice Unknown) else None)"

definition checkMobile :: "string \<Rightarrow> device option" where
  "checkMobile agent =
     (if agent \<noteq> [] then
        (if Contains agent Android then Some (mobileDevice Android)
         else if Contains agent Iphone \<or> Contains agent Ipod \<or> Contains agent Ipad
           then Some (mobileDevice Ios)
         else if rangeContains agent MobileUserAgentKeywords then Some (mobileDevice Unknown)
         else None)
      else None)"

definition resolveDevice :: "(string \<Rightarrow> string) \<Rightarrow> Header \<Rightarrow> panic + device" where
  "resolveDevice unicodeLower header =
     (let agent = ToLower unicodeLower (Header_Get header ''User-Agent'') in
      case checkTablet agent of Some d \<Rightarrow> Inr d | None \<Rightarrow>
      (case checkProfile header agent of Some d \<Rightarrow> Inr d | None \<Rightarrow>
      (case checkPrefix agent of Inl e \<Rightarrow> Inl e | Inr (Some d) \<Rightarrow> Inr d | Inr None \<Rightarrow>
      (case checkAccept header of Some d \<Rightarrow> Inr d | None \<Rightarrow>
      (case checkMobile agent of Some d \<Rightarrow> Inr d | None \<Rightarrow>
       Inr (normalDevice Unknown))))))"

text \<open>The value of the local variable \<^verbatim>\<open>agent\<close> for a header set.\<close>

abbreviation lowerAgent :: "(string \<Rightarrow> string) \<Rightarrow> Header \<Rightarrow> string" where
  "lowerAgent unicodeLower header \<equiv> ToLower unicodeLower (Header_Get header ''User-Agent'')"

section \<open>Properties\<close>

subsection \<open>The library operations\<close>

text \<open>
  \<open>Contains\<close> is substring containment, and a \<^verbatim>\<open>range\<close> loop returns exactly
  when some entry of its table is contained. On an ASCII string \<open>ToLower\<close> keeps the
  length.
\<close>

lemma HasPrefix_iff: "HasPrefix s p \<longleftrightarrow> (\<exists>ss. s = p @ ss)"
  by (induction s p rule: HasPrefix.induct) auto

lemma Contains_iff: "Contains s substr \<longleftrightarrow> (\<exists>ps ss. s = ps @ substr @ ss)"
proof (induction s)
  case Nil
  then show ?case by (simp add: HasPrefix_iff)
next
  case (Cons c cs)
  have "(\<exists>ps ss. c # cs = ps @ substr @ ss) \<longleftrightarrow>
        (\<exists>ss. c # cs = substr @ ss) \<or> (\<exists>ps ss. cs = ps @ substr @ ss)"
    by (auto simp: Cons_eq_append_conv)
  then show ?case using Cons.IH by (simp add: HasPrefix_iff)
qed

lemma rangeContains_iff: "rangeContains s ks \<longleftrightarrow> (\<exists>k \<in> set ks. Contains s k)"
  by (induction ks) auto


subsection \<open>What each block can return\<close>

lemma checkTablet_Some: "checkTablet a = Some d \<Longrightarrow> \<exists>p. d = tabletDevice p"
  by (auto simp: checkTablet_def split: if_splits)

lemma checkProfile_Some: "checkProfile h a = Some d \<Longrightarrow> \<exists>p. d = mobileDevice p"
  by (auto simp: checkProfile_def Let_def split: if_splits)

lemma checkAccept_Some: "checkAccept h = Some d \<Longrightarrow> d = mobileDevice Unknown"
  by (auto simp: checkAccept_def Let_def split: if_splits)

lemma checkMobile_Some: "checkMobile a = Some d \<Longrightarrow> \<exists>p. d = mobileDevice p"
  by (auto simp: checkMobile_def split: if_splits)

lemma checkPrefix_cases:
  "checkPrefix a = Inr None \<or> checkPrefix a = Inr (Some (mobileDevice Unknown))"
  by (simp add: checkPrefix_def slice_to_def)


lemma resolveDevice_cases:
  "(\<exists>p. resolveDevice u h = Inr (tabletDevice p)) \<or>
   (\<exists>p. resolveDevice u h = Inr (mobileDevice p)) \<or>
   resolveDevice u h = Inr (normalDevice Unknown)"
  using checkPrefix_cases [of "lowerAgent u h"]
  by (auto simp: resolveDevice_def Let_def split: option.splits sum.splits
      dest: checkTablet_Some checkProfile_Some checkAccept_Some checkMobile_Some)

lemma checkPrefix_no_panic: "checkPrefix a \<noteq> Inl e"
  by (simp add: checkPrefix_def slice_to_def)

subsection \<open>The case-sensitive Silk comparison\<close>

text \<open>
  \<open>agent\<close> is lowercased before the tablet block runs, and the block compares it with
  the constant \<open>Silk\<close>, which is \<^verbatim>\<open>"Silk"\<close> with a capital S. A lowercased ASCII string has
  no capital letter, so on ASCII input the Kindle branch is never taken.
\<close>

lemma HasPrefix_Cons_mem: "HasPrefix s (p # ps) \<Longrightarrow> p \<in> set s"
  by (cases s) auto

lemma Contains_Cons_mem: "Contains s (p # ps) \<Longrightarrow> p \<in> set s"
  by (induction s) (auto dest: HasPrefix_Cons_mem)

lemma lowerByte_not_upper_S: "lowerByte c \<noteq> CHR ''S''"
proof
  assume a: "lowerByte c = CHR ''S''"
  have "(of_char (lowerByte c) :: nat) \<noteq> 83"
    by (auto simp: lowerByte_def)
  moreover have "(of_char (CHR ''S'') :: nat) = 83" by simp
  ultimately show False using a by simp
qed

lemma ascii_lower_never_contains_Silk:
  "isASCII s \<Longrightarrow> \<not> Contains (ToLower u s) Silk"
proof
  assume "isASCII s" and "Contains (ToLower u s) Silk"
  then have "CHR ''S'' \<in> set (map lowerByte s)"
    by (auto simp: ToLower_def Silk_def dest: Contains_Cons_mem)
  then obtain c where "lowerByte c = CHR ''S''"
    by auto
  then show False
    by (simp add: lowerByte_not_upper_S)
qed

subsection \<open>The claims\<close>

text \<open>
  C1. For every header set, the device that \<open>resolveDevice\<close> returns has exactly one of
  the three flags \<open>normal\<close>, \<open>mobile\<close>, \<open>tablet\<close> set, and the other two are false.
\<close>

theorem resolveDevice_exactly_one_flag:
  "\<exists>d. resolveDevice u h = Inr d \<and>
     ((normal d \<and> \<not> mobile d \<and> \<not> tablet d) \<or>
      (mobile d \<and> \<not> normal d \<and> \<not> tablet d) \<or>
      (tablet d \<and> \<not> normal d \<and> \<not> mobile d))"
  using resolveDevice_cases [of u h]
  by (auto simp: tabletDevice_def mobileDevice_def normalDevice_def)

theorem resolveDevice_exactly_one_flag_witness:
  "resolveDevice (\<lambda>s. s) [''User-Agent'' \<mapsto> [''Mozilla/5.0 (iPhone; CPU iPhone OS 14_0)'']]
     = Inr (mobileDevice Ios) \<and>
   (\<exists>d. resolveDevice (\<lambda>s. s) [''User-Agent'' \<mapsto> [''Mozilla/5.0 (iPhone; CPU iPhone OS 14_0)'']]
          = Inr d \<and>
     ((normal d \<and> \<not> mobile d \<and> \<not> tablet d) \<or>
      (mobile d \<and> \<not> normal d \<and> \<not> tablet d) \<or>
      (tablet d \<and> \<not> normal d \<and> \<not> mobile d)))"
proof -
  have "resolveDevice (\<lambda>s. s) [''User-Agent'' \<mapsto> [''Mozilla/5.0 (iPhone; CPU iPhone OS 14_0)'']]
     = Inr (mobileDevice Ios)"
    by code_simp
  then show ?thesis
    using resolveDevice_exactly_one_flag
      [of "\<lambda>s. s" "[''User-Agent'' \<mapsto> [''Mozilla/5.0 (iPhone; CPU iPhone OS 14_0)'']]"]
    by blast
qed

text \<open>
  C2. The claim: a non-empty lowercased User-Agent that contains \<^verbatim>\<open>"silk"\<close> and not
  \<^verbatim>\<open>"mobile"\<close>, and matches no earlier tablet branch, is a tablet with platform Kindle; in
  particular the User-Agent \<^verbatim>\<open>"AmazonWebAppPlatform Silk/3.0"\<close> alone is.
  The function does otherwise. For that header set the lowercased agent contains
  \<^verbatim>\<open>"silk"\<close> and not \<^verbatim>\<open>"mobile"\<close>, yet it does not contain the constant \<open>Silk\<close>
  (\<^verbatim>\<open>"Silk"\<close>), no later block matches either, and the result is the normal device with
  platform Unknown.
\<close>

theorem silk_agent_resolves_normal:
  "lowerAgent u [''User-Agent'' \<mapsto> [''AmazonWebAppPlatform Silk/3.0'']]
     = ''amazonwebappplatform silk/3.0'' \<and>
   Contains ''amazonwebappplatform silk/3.0'' ''silk'' \<and>
   \<not> Contains ''amazonwebappplatform silk/3.0'' Mobile \<and>
   \<not> Contains ''amazonwebappplatform silk/3.0'' Silk \<and>
   resolveDevice u [''User-Agent'' \<mapsto> [''AmazonWebAppPlatform Silk/3.0'']]
     = Inr (normalDevice Unknown)"
  by code_simp

text \<open>
  C3. For every header set whose lowercased User-Agent is non-empty, contains
  \<^verbatim>\<open>"android"\<close> and does not contain \<^verbatim>\<open>"mobile"\<close>, \<open>resolveDevice\<close> returns the tablet
  device with platform Android.
\<close>

theorem android_without_mobile_is_tablet:
  assumes "lowerAgent u h \<noteq> []"
    and "Contains (lowerAgent u h) Android"
    and "\<not> Contains (lowerAgent u h) Mobile"
  shows "resolveDevice u h = Inr (tabletDevice Android)"
  using assms by (simp add: resolveDevice_def checkTablet_def Let_def)

theorem android_without_mobile_is_tablet_witness:
  "lowerAgent (\<lambda>s. s) [''User-Agent'' \<mapsto> [''Mozilla/5.0 (Linux; Android 10)'']] \<noteq> [] \<and>
   Contains (lowerAgent (\<lambda>s. s) [''User-Agent'' \<mapsto> [''Mozilla/5.0 (Linux; Android 10)'']]) Android \<and>
   \<not> Contains (lowerAgent (\<lambda>s. s) [''User-Agent'' \<mapsto> [''Mozilla/5.0 (Linux; Android 10)'']]) Mobile \<and>
   resolveDevice (\<lambda>s. s) [''User-Agent'' \<mapsto> [''Mozilla/5.0 (Linux; Android 10)'']]
     = Inr \<lparr>normal = False, mobile = False, tablet = True, platform = ''android''\<rparr>"
  (is "?A \<and> ?B \<and> ?C \<and> ?D")
proof -
  have a: ?A by code_simp
  have b: ?B by code_simp
  have c: ?C by code_simp
  have "?D" using android_without_mobile_is_tablet [OF a b c]
    by (simp add: tabletDevice_def Android_def)
  with a b c show ?thesis by blast
qed

text \<open>
  C4. For every header set whose lowercased User-Agent is non-empty and contains
  \<^verbatim>\<open>"ipad"\<close>, \<open>resolveDevice\<close> returns a tablet, whether or not the agent contains
  \<^verbatim>\<open>"mobile"\<close> as well: the tablet block returns before any mobile block is reached. The
  platform is Android when the first case of the block applies, and \<^verbatim>\<open>"ipad"\<close> otherwise.
  The instance below has both \<^verbatim>\<open>"ipad"\<close> and \<^verbatim>\<open>"mobile"\<close> in the agent.
\<close>

theorem ipad_agent_is_tablet:
  assumes "lowerAgent u h \<noteq> []"
    and "Contains (lowerAgent u h) Ipad"
  shows "\<exists>d. resolveDevice u h = Inr d \<and> tablet d \<and> \<not> mobile d \<and> \<not> normal d \<and>
           platform d = (if Contains (lowerAgent u h) Android \<and> \<not> Contains (lowerAgent u h) Mobile
                         then Android else Ipad)"
  using assms by (simp add: resolveDevice_def checkTablet_def tabletDevice_def Let_def)

theorem ipad_agent_is_tablet_witness:
  "lowerAgent (\<lambda>s. s) [''User-Agent'' \<mapsto> [''Mozilla/5.0 (iPad; CPU OS 14_0) Mobile/15E148'']] \<noteq> [] \<and>
   Contains (lowerAgent (\<lambda>s. s) [''User-Agent'' \<mapsto> [''Mozilla/5.0 (iPad; CPU OS 14_0) Mobile/15E148'']]) Ipad \<and>
   Contains (lowerAgent (\<lambda>s. s) [''User-Agent'' \<mapsto> [''Mozilla/5.0 (iPad; CPU OS 14_0) Mobile/15E148'']]) Mobile \<and>
   (\<exists>d. resolveDevice (\<lambda>s. s) [''User-Agent'' \<mapsto> [''Mozilla/5.0 (iPad; CPU OS 14_0) Mobile/15E148'']] = Inr d \<and>
        tablet d \<and> \<not> mobile d \<and> \<not> normal d \<and> platform d = ''ipad'')"
  (is "?A \<and> ?B \<and> ?C \<and> ?D")
proof -
  have a: ?A by code_simp
  have b: ?B by code_simp
  have c: ?C by code_simp
  have "?D" using ipad_agent_is_tablet [OF a b] c
    by (simp add: Ipad_def)
  with a b c show ?thesis by blast
qed

text \<open>
  C5. For every header set in which the X-Wap-Profile header or the Profile header is
  non-empty, the lowercased User-Agent is non-empty and the tablet block did not return,
  \<open>resolveDevice\<close> returns a mobile device. Its platform is Android if the agent contains
  \<^verbatim>\<open>"android"\<close>; else iOS (the tag \<^verbatim>\<open>"ios"\<close>) if it contains \<^verbatim>\<open>"iphone"\<close>, \<^verbatim>\<open>"ipod"\<close> or
  \<^verbatim>\<open>"ipad"\<close>; else Unknown. The three cases are tried in this order, as the \<^verbatim>\<open>switch\<close> does.
\<close>

theorem profile_header_is_mobile:
  assumes "Header_Get h XwapProfile \<noteq> [] \<or> Header_Get h Profile \<noteq> []"
    and "lowerAgent u h \<noteq> []"
    and "checkTablet (lowerAgent u h) = None"
  shows "resolveDevice u h =
           Inr (mobileDevice
             (if Contains (lowerAgent u h) Android then Android
              else if Contains (lowerAgent u h) Iphone \<or> Contains (lowerAgent u h) Ipod \<or>
                      Contains (lowerAgent u h) Ipad then Ios
              else Unknown))"
  using assms by (auto simp: resolveDevice_def checkProfile_def Let_def)

theorem profile_header_is_mobile_witness:
  "Header_Get [''User-Agent'' \<mapsto> [''Mozilla/5.0 (iPhone; CPU iPhone OS 14_0)''],
               ''X-Wap-Profile'' \<mapsto> [''http://wap.example.com/uaprof.xml'']] XwapProfile \<noteq> [] \<and>
   lowerAgent (\<lambda>s. s) [''User-Agent'' \<mapsto> [''Mozilla/5.0 (iPhone; CPU iPhone OS 14_0)''],
               ''X-Wap-Profile'' \<mapsto> [''http://wap.example.com/uaprof.xml'']] \<noteq> [] \<and>
   checkTablet (lowerAgent (\<lambda>s. s) [''User-Agent'' \<mapsto> [''Mozilla/5.0 (iPhone; CPU iPhone OS 14_0)''],
               ''X-Wap-Profile'' \<mapsto> [''http://wap.example.com/uaprof.xml'']]) = None \<and>
   resolveDevice (\<lambda>s. s) [''User-Agent'' \<mapsto> [''Mozilla/5.0 (iPhone; CPU iPhone OS 14_0)''],
               ''X-Wap-Profile'' \<mapsto> [''http://wap.example.com/uaprof.xml'']]
     = Inr \<lparr>normal = False, mobile = True, tablet = False, platform = ''ios''\<rparr>"
  (is "?A \<and> ?B \<and> ?C \<and> ?D")
proof -
  have a: ?A by code_simp
  have b: ?B by code_simp
  have c: ?C by code_simp
  have i: "Contains (lowerAgent (\<lambda>s. s) [''User-Agent'' \<mapsto> [''Mozilla/5.0 (iPhone; CPU iPhone OS 14_0)''],
               ''X-Wap-Profile'' \<mapsto> [''http://wap.example.com/uaprof.xml'']]) Iphone" by code_simp
  have n: "\<not> Contains (lowerAgent (\<lambda>s. s) [''User-Agent'' \<mapsto> [''Mozilla/5.0 (iPhone; CPU iPhone OS 14_0)''],
               ''X-Wap-Profile'' \<mapsto> [''http://wap.example.com/uaprof.xml'']]) Android" by code_simp
  have "?D" using profile_header_is_mobile [OF disjI1 [OF a] b c] i n
    by (simp add: mobileDevice_def Ios_def)
  with a b c show ?thesis by blast
qed

text \<open>
  C6. For every header set whose Accept header is non-empty and contains \<^verbatim>\<open>"wap"\<close>, and
  for which the tablet block, the profile-header block and the prefix block did not return,
  \<open>resolveDevice\<close> returns the mobile device with platform Unknown.
\<close>

theorem accept_wap_is_mobile_unknown:
  assumes "Header_Get h ''Accept'' \<noteq> []"
    and "Contains (Header_Get h ''Accept'') Wap"
    and "checkTablet (lowerAgent u h) = None"
    and "checkProfile h (lowerAgent u h) = None"
    and "checkPrefix (lowerAgent u h) = Inr None"
  shows "resolveDevice u h = Inr (mobileDevice Unknown)"
  using assms by (simp add: resolveDevice_def checkAccept_def Let_def)

theorem accept_wap_is_mobile_unknown_witness:
  "Header_Get [''User-Agent'' \<mapsto> [''Mozilla/5.0 (X11; Linux x86_64)''],
               ''Accept'' \<mapsto> [''application/vnd.wap.wml'']] ''Accept'' \<noteq> [] \<and>
   Contains (Header_Get [''User-Agent'' \<mapsto> [''Mozilla/5.0 (X11; Linux x86_64)''],
               ''Accept'' \<mapsto> [''application/vnd.wap.wml'']] ''Accept'') Wap \<and>
   checkTablet (lowerAgent (\<lambda>s. s) [''User-Agent'' \<mapsto> [''Mozilla/5.0 (X11; Linux x86_64)''],
               ''Accept'' \<mapsto> [''application/vnd.wap.wml'']]) = None \<and>
   checkProfile [''User-Agent'' \<mapsto> [''Mozilla/5.0 (X11; Linux x86_64)''],
               ''Accept'' \<mapsto> [''application/vnd.wap.wml'']]
      (lowerAgent (\<lambda>s. s) [''User-Agent'' \<mapsto> [''Mozilla/5.0 (X11; Linux x86_64)''],
               ''Accept'' \<mapsto> [''application/vnd.wap.wml'']]) = None \<and>
   checkPrefix (lowerAgent (\<lambda>s. s) [''User-Agent'' \<mapsto> [''Mozilla/5.0 (X11; Linux x86_64)''],
               ''Accept'' \<mapsto> [''application/vnd.wap.wml'']]) = Inr None \<and>
   resolveDevice (\<lambda>s. s) [''User-Agent'' \<mapsto> [''Mozilla/5.0 (X11; Linux x86_64)''],
               ''Accept'' \<mapsto> [''application/vnd.wap.wml'']]
     = Inr \<lparr>normal = False, mobile = True, tablet = False, platform = ''Unknown''\<rparr>"
  (is "?A \<and> ?B \<and> ?C \<and> ?D \<and> ?E \<and> ?F")
proof -
  have a: ?A by code_simp
  have b: ?B by code_simp
  have c: ?C by code_simp
  have d: ?D by code_simp
  have e: ?E by code_simp
  have "?F" using accept_wap_is_mobile_unknown [OF a b c d e]
    by (simp add: mobileDevice_def Unknown_def)
  with a b c d e show ?thesis by blast
qed

text \<open>
  C7. For a header set whose User-Agent, X-Wap-Profile, Profile and Accept headers are
  empty or absent, \<open>resolveDevice\<close> returns the normal device with platform Unknown. The
  instances are the empty header set, and one where User-Agent holds an empty value and
  Accept holds no value.
\<close>

theorem no_headers_is_normal_unknown:
  assumes "Header_Get h ''User-Agent'' = []"
    and "Header_Get h XwapProfile = []"
    and "Header_Get h Profile = []"
    and "Header_Get h ''Accept'' = []"
  shows "resolveDevice u h = Inr (normalDevice Unknown)"
  using assms
  by (simp add: resolveDevice_def ToLower_def checkTablet_def checkProfile_def checkPrefix_def
      checkAccept_def checkMobile_def Let_def)

theorem no_headers_is_normal_unknown_witness:
  "Header_Get Map.empty ''User-Agent'' = [] \<and>
   Header_Get Map.empty XwapProfile = [] \<and>
   Header_Get Map.empty Profile = [] \<and>
   Header_Get Map.empty ''Accept'' = [] \<and>
   resolveDevice (\<lambda>s. s) Map.empty
     = Inr \<lparr>normal = True, mobile = False, tablet = False, platform = ''Unknown''\<rparr> \<and>
   resolveDevice (\<lambda>s. s) [''User-Agent'' \<mapsto> [[]], ''Accept'' \<mapsto> []]
     = Inr \<lparr>normal = True, mobile = False, tablet = False, platform = ''Unknown''\<rparr>"
proof -
  have e: "Header_Get Map.empty k = []" for k
    by (simp add: Header_Get_def)
  have g: "Header_Get [''User-Agent'' \<mapsto> [[]], ''Accept'' \<mapsto> []] k = []" for k
    by (simp add: Header_Get_def)
  have "resolveDevice (\<lambda>s. s) Map.empty = Inr (normalDevice Unknown)"
    by (rule no_headers_is_normal_unknown [OF e e e e])
  moreover have "resolveDevice (\<lambda>s. s) [''User-Agent'' \<mapsto> [[]], ''Accept'' \<mapsto> []]
      = Inr (normalDevice Unknown)"
    by (rule no_headers_is_normal_unknown [OF g g g g])
  ultimately show ?thesis
    using e by (simp add: normalDevice_def Unknown_def)
qed



text \<open>
  C9. \<open>resolveDevice\<close> is deterministic, and reads nothing but the first values of the
  four headers: two header sets that agree on User-Agent, X-Wap-Profile, Profile and Accept
  get the same device, equal in all four fields. The instance has two different header
  sets that agree on the four headers.
\<close>

theorem resolveDevice_deterministic:
  assumes "Header_Get h1 ''User-Agent'' = Header_Get h2 ''User-Agent''"
    and "Header_Get h1 XwapProfile = Header_Get h2 XwapProfile"
    and "Header_Get h1 Profile = Header_Get h2 Profile"
    and "Header_Get h1 ''Accept'' = Header_Get h2 ''Accept''"
  shows "resolveDevice u h1 = resolveDevice u h2"
proof -
  have p: "checkProfile h1 a = checkProfile h2 a" for a
    using assms(2,3) by (simp add: checkProfile_def)
  have c: "checkAccept h1 = checkAccept h2"
    using assms(4) by (simp add: checkAccept_def)
  show ?thesis
    unfolding resolveDevice_def by (simp only: assms(1) p c)
qed

theorem resolveDevice_deterministic_witness:
  "[''User-Agent'' \<mapsto> [''Mozilla/5.0 (Linux; Android 10) Mobile''], ''Accept'' \<mapsto> [''text/html'']]
     \<noteq> [''User-Agent'' \<mapsto> [''Mozilla/5.0 (Linux; Android 10) Mobile'', ''curl/8.0''],
        ''Accept'' \<mapsto> [''text/html''], ''Host'' \<mapsto> [''example.com'']] \<and>
   resolveDevice (\<lambda>s. s)
     [''User-Agent'' \<mapsto> [''Mozilla/5.0 (Linux; Android 10) Mobile''], ''Accept'' \<mapsto> [''text/html'']]
   = resolveDevice (\<lambda>s. s)
     [''User-Agent'' \<mapsto> [''Mozilla/5.0 (Linux; Android 10) Mobile'', ''curl/8.0''],
      ''Accept'' \<mapsto> [''text/html''], ''Host'' \<mapsto> [''example.com'']] \<and>
   resolveDevice (\<lambda>s. s)
     [''User-Agent'' \<mapsto> [''Mozilla/5.0 (Linux; Android 10) Mobile''], ''Accept'' \<mapsto> [''text/html'']]
   = Inr \<lparr>normal = False, mobile = True, tablet = False, platform = ''android''\<rparr>"
  (is "?h1 \<noteq> ?h2 \<and> ?L = ?R \<and> ?V")
proof -
  have ne: "?h1 \<noteq> ?h2"
  proof
    assume "?h1 = ?h2"
    then have "?h1 ''Host'' = ?h2 ''Host''" by (rule arg_cong)
    then show False by simp
  qed
  have g: "Header_Get ?h1 k = Header_Get ?h2 k"
    if "k = ''User-Agent'' \<or> k = XwapProfile \<or> k = Profile \<or> k = ''Accept''" for k
    using that by (auto simp: Header_Get_def XwapProfile_def Profile_def)
  have eq: "?L = ?R"
    by (rule resolveDevice_deterministic) (rule g, simp)+
  have v: ?V by code_simp
  from ne eq v show ?thesis by blast
qed

text \<open>
  C10. The Accept check is case-sensitive: the Accept value is compared with \<^verbatim>\<open>"wap"\<close>
  as it was sent. For every header set whose Accept header contains \<^verbatim>\<open>"wap"\<close> only in
  upper or mixed case (its ASCII lowercasing contains \<^verbatim>\<open>"wap"\<close>, the value does not), and
  for which the earlier blocks did not return, the Accept block does not return either and
  the result is that of the remaining blocks: the mobile keyword block, and the normal
  device when that one does not match.
\<close>

theorem accept_check_is_case_sensitive:
  assumes "\<not> Contains (Header_Get h ''Accept'') Wap"
    and "Contains (map lowerByte (Header_Get h ''Accept'')) Wap"
    and "checkTablet (lowerAgent u h) = None"
    and "checkProfile h (lowerAgent u h) = None"
    and "checkPrefix (lowerAgent u h) = Inr None"
  shows "checkAccept h = None \<and>
         resolveDevice u h =
           (case checkMobile (lowerAgent u h) of Some d \<Rightarrow> Inr d
            | None \<Rightarrow> Inr (normalDevice Unknown))"
  using assms by (simp add: resolveDevice_def checkAccept_def Let_def)

theorem accept_check_is_case_sensitive_witness:
  "\<not> Contains (Header_Get [''User-Agent'' \<mapsto> [''Mozilla/5.0 (X11; Linux x86_64)''],
               ''Accept'' \<mapsto> [''application/vnd.WAP.wml'']] ''Accept'') Wap \<and>
   Contains (map lowerByte (Header_Get [''User-Agent'' \<mapsto> [''Mozilla/5.0 (X11; Linux x86_64)''],
               ''Accept'' \<mapsto> [''application/vnd.WAP.wml'']] ''Accept'')) Wap \<and>
   checkTablet (lowerAgent (\<lambda>s. s) [''User-Agent'' \<mapsto> [''Mozilla/5.0 (X11; Linux x86_64)''],
               ''Accept'' \<mapsto> [''application/vnd.WAP.wml'']]) = None \<and>
   checkProfile [''User-Agent'' \<mapsto> [''Mozilla/5.0 (X11; Linux x86_64)''],
               ''Accept'' \<mapsto> [''application/vnd.WAP.wml'']]
      (lowerAgent (\<lambda>s. s) [''User-Agent'' \<mapsto> [''Mozilla/5.0 (X11; Linux x86_64)''],
               ''Accept'' \<mapsto> [''application/vnd.WAP.wml'']]) = None \<and>
   checkPrefix (lowerAgent (\<lambda>s. s) [''User-Agent'' \<mapsto> [''Mozilla/5.0 (X11; Linux x86_64)''],
               ''Accept'' \<mapsto> [''application/vnd.WAP.wml'']]) = Inr None \<and>
   checkAccept [''User-Agent'' \<mapsto> [''Mozilla/5.0 (X11; Linux x86_64)''],
               ''Accept'' \<mapsto> [''application/vnd.WAP.wml'']] = None \<and>
   resolveDevice (\<lambda>s. s) [''User-Agent'' \<mapsto> [''Mozilla/5.0 (X11; Linux x86_64)''],
               ''Accept'' \<mapsto> [''application/vnd.WAP.wml'']]
     = Inr \<lparr>normal = True, mobile = False, tablet = False, platform = ''Unknown''\<rparr>"
  (is "?A \<and> ?B \<and> ?C \<and> ?D \<and> ?E \<and> ?F \<and> ?G")
proof -
  have a: ?A by code_simp
  have b: ?B by code_simp
  have c: ?C by code_simp
  have d: ?D by code_simp
  have e: ?E by code_simp
  have m: "checkMobile (lowerAgent (\<lambda>s. s) [''User-Agent'' \<mapsto> [''Mozilla/5.0 (X11; Linux x86_64)''],
               ''Accept'' \<mapsto> [''application/vnd.WAP.wml'']]) = None" by code_simp
  note t = accept_check_is_case_sensitive [OF a b c d e]
  have f: ?F using t by (rule conjunct1)
  have "resolveDevice (\<lambda>s. s) [''User-Agent'' \<mapsto> [''Mozilla/5.0 (X11; Linux x86_64)''],
               ''Accept'' \<mapsto> [''application/vnd.WAP.wml'']] = Inr (normalDevice Unknown)"
    using conjunct2 [OF t] by (simp only: m option.case)
  then have g: ?G by (simp add: normalDevice_def Unknown_def)
  from a b c d e f g show ?thesis by blast
qed

end
